theory Spec2Isabelle
  imports Main
begin

section \<open>Values that cross the HTTP boundary\<close>

text \<open>
  A JavaScript number as this program uses it: an HTTP status code, a TCP port, or the
  result of \<^verbatim>\<open>parseInt\<close>. Such a number is an integer or \<^verbatim>\<open>NaN\<close>. Negative zero is
  identified with zero, and the rounding of integers beyond \<open>2^53\<close> to a double is
  not represented.
\<close>

datatype jsnum = NaN | Num int

text \<open>Truthiness of a number, as the operator \<^verbatim>\<open>||\<close> tests it: 0 and NaN are falsy.\<close>

fun truthy_num :: "jsnum \<Rightarrow> bool" where
  "truthy_num NaN = False"
| "truthy_num (Num n) = (n \<noteq> 0)"

text \<open>\<^verbatim>\<open>x || d\<close> on an optional number (\<^verbatim>\<open>undefined\<close> is \<open>None\<close>).\<close>

fun num_or :: "jsnum option \<Rightarrow> jsnum \<Rightarrow> jsnum" where
  "num_or None d = d"
| "num_or (Some x) d = (if truthy_num x then x else d)"

text \<open>\<^verbatim>\<open>s || d\<close> on a string: the empty string is falsy.\<close>

definition str_or :: "string \<Rightarrow> string \<Rightarrow> string" where
  "str_or s d = (if s = [] then d else s)"

text \<open>\<^verbatim>\<open>s || d\<close> on an optional string (\<^verbatim>\<open>undefined\<close> is \<open>None\<close>).\<close>

fun opt_str_or :: "string option \<Rightarrow> string \<Rightarrow> string" where
  "opt_str_or None d = d"
| "opt_str_or (Some s) d = str_or s d"

datatype http_method = GET | HEAD | POST | PUT | DELETE | PATCH | OPTIONS | TRACE

text \<open>
  The part of a request the router looks at: the method and the path of the URL.
  Neither handler of this program reads anything else of the request.
\<close>

record FastifyRequest =
  req_method :: http_method
  path :: string

text \<open>\<^verbatim>\<open>interface HealthResponse { status: 'ok' }\<close> (shared/types/health.types.ts).\<close>

record HealthResponse =
  status :: string

datatype jsvalue = JNumber jsnum | JString string

text \<open>
  What a handler hands to \<^verbatim>\<open>reply.send\<close>: a \<open>HealthResponse\<close>, or an object
  literal written as its fields in source order.
\<close>

datatype payload = HealthPayload HealthResponse | ObjectPayload "(string \<times> jsvalue) list"

text \<open>
  An error object as the error handler reads it: \<^verbatim>\<open>statusCode\<close> and \<^verbatim>\<open>name\<close> may be
  missing (\<^verbatim>\<open>undefined\<close> is \<open>None\<close>); \<^verbatim>\<open>code\<close> is what the framework's own errors
  carry.
\<close>

record FastifyError =
  statusCode :: "jsnum option"
  code :: "string option"
  name :: "string option"
  message :: string

text \<open>\<^verbatim>\<open>String(n)\<close> for the numbers of this model.\<close>

fun nat_to_string :: "nat \<Rightarrow> string" where
  "nat_to_string n =
     (if n < 10 then [char_of (48 + n)]
      else nat_to_string (n div 10) @ [char_of (48 + n mod 10)])"

declare nat_to_string.simps [simp del]

fun number_to_string :: "jsnum \<Rightarrow> string" where
  "number_to_string NaN = ''NaN''"
| "number_to_string (Num n) =
     (if n < 0 then CHR ''-'' # nat_to_string (nat (- n)) else nat_to_string (nat n))"

text \<open>
  The error the framework throws from \<^verbatim>\<open>reply.status\<close> for a status code it does not
  accept.
\<close>

definition FST_ERR_BAD_STATUS_CODE :: "jsnum \<Rightarrow> FastifyError" where
  "FST_ERR_BAD_STATUS_CODE c =
     \<lparr>statusCode = Some (Num 500),
      code = Some ''FST_ERR_BAD_STATUS_CODE'',
      name = Some ''FastifyError'',
      message = ''Called reply with an invalid status code: '' @ number_to_string c\<rparr>"

text \<open>
  The reply object records the status code given to \<^verbatim>\<open>reply.status\<close> (200 until
  one is given) and the payload given to \<^verbatim>\<open>reply.send\<close>. \<^verbatim>\<open>reply.status\<close> accepts
  the codes from 100 to 599 and throws for every other number.
\<close>

record FastifyReply =
  reply_statusCode :: jsnum
  reply_payload :: "payload option"

definition new_reply :: FastifyReply where
  "new_reply = \<lparr>reply_statusCode = Num 200, reply_payload = None\<rparr>"

fun valid_status :: "jsnum \<Rightarrow> bool" where
  "valid_status NaN = False"
| "valid_status (Num n) = (100 \<le> n \<and> n \<le> 599)"

definition reply_status :: "FastifyReply \<Rightarrow> jsnum \<Rightarrow> FastifyError + FastifyReply" where
  "reply_status reply c =
     (if valid_status c then Inr (reply\<lparr>reply_statusCode := c\<rparr>)
      else Inl (FST_ERR_BAD_STATUS_CODE c))"

definition reply_send :: "FastifyReply \<Rightarrow> payload \<Rightarrow> FastifyReply" where
  "reply_send reply p = reply\<lparr>reply_payload := Some p\<rparr>"

section \<open>The handlers\<close>

text \<open>infrastructure/web/controllers/health.controller.ts\<close>

definition healthController :: "FastifyRequest \<Rightarrow> FastifyReply \<Rightarrow> HealthResponse" where
  "healthController request reply = \<lparr>status = ''ok''\<rparr>"

text \<open>infrastructure/web/routes/health.routes.ts, the 405 handler\<close>

definition methodNotAllowedHandler ::
  "FastifyRequest \<Rightarrow> FastifyReply \<Rightarrow> FastifyError + FastifyReply" where
  "methodNotAllowedHandler request reply =
     (case reply_status reply (Num 405) of
        Inl thrown \<Rightarrow> Inl thrown
      | Inr reply1 \<Rightarrow>
          Inr (reply_send reply1
            (ObjectPayload
               [(''statusCode'', JNumber (Num 405)),
                (''error'', JString ''Method Not Allowed''),
                (''message'', JString ''GET method required for /status endpoint'')])))"

text \<open>
  infrastructure/web/plugins/error-handler.plugin.ts, the callback given to
  \<^verbatim>\<open>setErrorHandler\<close>. It sends a reply (\<open>Inr\<close>), unless \<^verbatim>\<open>reply.status\<close> throws
  (\<open>Inl\<close>).
\<close>

definition errorCallback ::
  "FastifyError \<Rightarrow> FastifyRequest \<Rightarrow> FastifyReply \<Rightarrow> FastifyError + FastifyReply" where
  "errorCallback error request reply =
     (let statusCode = num_or (FastifyError.statusCode error) (Num 500)
      in case reply_status reply statusCode of
           Inl thrown \<Rightarrow> Inl thrown
         | Inr reply1 \<Rightarrow>
             Inr (reply_send reply1
               (ObjectPayload
                  [(''statusCode'', JNumber statusCode),
                   (''error'', JString (opt_str_or (name error) ''Error'')),
                   (''message'', JString (message error))])))"

section \<open>The server\<close>

text \<open>
  A route's handler: one of the two handlers of this program, or a function that some
  other code registered (the tests register routes that throw). A handler either raises an
  error (\<open>Inl\<close>) or leaves a reply (\<open>Inr\<close>).
\<close>

datatype route_handler =
    HealthController
  | MethodNotAllowedHandler
  | RouteFn "FastifyRequest \<Rightarrow> FastifyReply \<Rightarrow> FastifyError + FastifyReply"

record route =
  route_method :: http_method
  route_url :: string
  handler :: route_handler

text \<open>
  Of the server options only \<^verbatim>\<open>exposeHeadRoutes\<close> bears on routing; when it is not
  given the framework takes it to be true.
\<close>

record FastifyServerOptions =
  exposeHeadRoutes :: "bool option"

text \<open>
  The Fastify instance as far as this program configures it: the routes in registration
  order, the error handler installed by \<^verbatim>\<open>setErrorHandler\<close>, if any, and whether a
  GET route also answers HEAD.
\<close>

record FastifyInstance =
  routes :: "route list"
  errorHandlerFn ::
    "(FastifyError \<Rightarrow> FastifyRequest \<Rightarrow> FastifyReply \<Rightarrow> FastifyError + FastifyReply) option"
  exposeHead :: bool

definition Fastify :: "FastifyServerOptions \<Rightarrow> FastifyInstance" where
  "Fastify opts =
     \<lparr>routes = [], errorHandlerFn = None,
      exposeHead = (case exposeHeadRoutes opts of None \<Rightarrow> True | Some b \<Rightarrow> b)\<rparr>"

definition add_route :: "FastifyInstance \<Rightarrow> http_method \<Rightarrow> string \<Rightarrow> route_handler \<Rightarrow> FastifyInstance" where
  "add_route fastify m u h =
     fastify\<lparr>routes := routes fastify @ [\<lparr>route_method = m, route_url = u, handler = h\<rparr>]\<rparr>"

text \<open>\<^verbatim>\<open>fastify.get\<close>: the GET route, and its sibling HEAD route when those are exposed.\<close>

definition fastify_get :: "FastifyInstance \<Rightarrow> string \<Rightarrow> route_handler \<Rightarrow> FastifyInstance" where
  "fastify_get fastify u h =
     (let f = add_route fastify GET u h
      in if exposeHead fastify then add_route f HEAD u h else f)"

definition setErrorHandler ::
  "FastifyInstance \<Rightarrow>
   (FastifyError \<Rightarrow> FastifyRequest \<Rightarrow> FastifyReply \<Rightarrow> FastifyError + FastifyReply) \<Rightarrow>
   FastifyInstance" where
  "setErrorHandler fastify f = fastify\<lparr>errorHandlerFn := Some f\<rparr>"

text \<open>infrastructure/web/plugins/error-handler.plugin.ts\<close>

definition errorHandler :: "FastifyInstance \<Rightarrow> FastifyInstance" where
  "errorHandler fastify = setErrorHandler fastify errorCallback"

text \<open>
  infrastructure/web/routes/health.routes.ts: \<^verbatim>\<open>fastify.get\<close>, then \<^verbatim>\<open>post\<close>,
  \<^verbatim>\<open>put\<close>, \<^verbatim>\<open>delete\<close> and \<^verbatim>\<open>patch\<close> on the same URL.
\<close>

definition healthRoutes :: "FastifyInstance \<Rightarrow> FastifyInstance" where
  "healthRoutes fastify =
     (let f1 = fastify_get fastify ''/status'' HealthController;
          f2 = add_route f1 POST ''/status'' MethodNotAllowedHandler;
          f3 = add_route f2 PUT ''/status'' MethodNotAllowedHandler;
          f4 = add_route f3 DELETE ''/status'' MethodNotAllowedHandler
      in add_route f4 PATCH ''/status'' MethodNotAllowedHandler)"

text \<open>
  infrastructure/web/server.ts: the error handler plugin is registered first, then the
  routes.
\<close>

definition buildServer :: "FastifyServerOptions \<Rightarrow> FastifyInstance" where
  "buildServer opts = healthRoutes (errorHandler (Fastify opts))"

text \<open>
  Running a handler. The value an async handler resolves to is sent by the framework with
  the reply's current status code; \<open>methodNotAllowedHandler\<close> sends by itself.
\<close>

fun call :: "route_handler \<Rightarrow> FastifyRequest \<Rightarrow> FastifyReply \<Rightarrow> FastifyError + FastifyReply" where
  "call HealthController request reply =
     Inr (reply_send reply (HealthPayload (healthController request reply)))"
| "call MethodNotAllowedHandler request reply = methodNotAllowedHandler request reply"
| "call (RouteFn f) request reply = f request reply"

fun find_route :: "route list \<Rightarrow> http_method \<Rightarrow> string \<Rightarrow> route_handler option" where
  "find_route [] m u = None"
| "find_route (r # rs) m u =
     (if route_method r = m \<and> route_url r = u then Some (handler r) else find_route rs m u)"

text \<open>
  What happens to one request. \<open>NoRoute\<close>: no route of the table matches, so no handler
  of this program runs and the answer is the framework's own. \<open>Replied\<close>: the reply
  left by the route's handler or, when that handler raised, by the installed error handler.
  \<open>DefaultErrorHandler\<close>: the framework's built-in error handler answers for the given
  error, because no error handler was installed or because the installed one threw that
  error itself.
\<close>

datatype outcome =
    NoRoute
  | DefaultErrorHandler FastifyError
  | Replied route_handler FastifyReply

definition inject :: "FastifyInstance \<Rightarrow> FastifyRequest \<Rightarrow> outcome" where
  "inject fastify request =
     (case find_route (routes fastify) (req_method request) (path request) of
        None \<Rightarrow> NoRoute
      | Some h \<Rightarrow>
          (case call h request new_reply of
             Inr reply \<Rightarrow> Replied h reply
           | Inl error \<Rightarrow>
               (case errorHandlerFn fastify of
                  None \<Rightarrow> DefaultErrorHandler error
                | Some eh \<Rightarrow>
                    (case eh error request new_reply of
                       Inr reply \<Rightarrow> Replied h reply
                     | Inl thrown \<Rightarrow> DefaultErrorHandler thrown))))"

text \<open>A server answers requests one after the other; nothing is kept between them.\<close>

fun serve :: "FastifyInstance \<Rightarrow> FastifyRequest list \<Rightarrow> outcome list" where
  "serve fastify [] = []"
| "serve fastify (r # rs) = inject fastify r # serve fastify rs"

section \<open>Configuration\<close>

text \<open>
  The built-in \<^verbatim>\<open>parseInt(string, radix)\<close> of ECMAScript: leading white space is
  skipped, one sign is read, and the longest prefix of digits of the radix is converted;
  with no such digit the result is \<^verbatim>\<open>NaN\<close>. A radix of 0 means 10, or 16 after
  \<^verbatim>\<open>0x\<close>; a radix outside 2..36 gives \<^verbatim>\<open>NaN\<close>. A string is a list of code units
  below 256; among those the white space of ECMAScript is TAB, LF, VT, FF, CR, SP and
  NBSP. Code units from 256 on (which include further white space) are not represented.
\<close>

definition isWhiteSpace :: "char \<Rightarrow> bool" where
  "isWhiteSpace c = (c \<in> set [CHR 0x09, CHR 0x0A, CHR 0x0B, CHR 0x0C, CHR 0x0D, CHR 0x20, CHR 0xA0])"

definition digitValue :: "char \<Rightarrow> nat option" where
  "digitValue c =
     (let n = (of_char c :: nat)
      in if 48 \<le> n \<and> n \<le> 57 then Some (n - 48)
         else if 97 \<le> n \<and> n \<le> 122 then Some (n - 87)
         else if 65 \<le> n \<and> n \<le> 90 then Some (n - 55)
         else None)"

definition isRadixDigit :: "nat \<Rightarrow> char \<Rightarrow> bool" where
  "isRadixDigit R c = (case digitValue c of None \<Rightarrow> False | Some d \<Rightarrow> d < R)"

definition digitsValue :: "nat \<Rightarrow> string \<Rightarrow> nat" where
  "digitsValue R Z = foldl (\<lambda>acc c. acc * R + (case digitValue c of None \<Rightarrow> 0 | Some d \<Rightarrow> d)) 0 Z"

definition signOf :: "string \<Rightarrow> int" where
  "signOf S = (case S of [] \<Rightarrow> 1 | c # _ \<Rightarrow> if c = CHR ''-'' then - 1 else 1)"

definition stripSign :: "string \<Rightarrow> string" where
  "stripSign S = (case S of [] \<Rightarrow> [] | c # cs \<Rightarrow> if c = CHR ''+'' \<or> c = CHR ''-'' then cs else S)"

definition hasHexPrefix :: "string \<Rightarrow> bool" where
  "hasHexPrefix S = (take 2 S = ''0x'' \<or> take 2 S = ''0X'')"

definition parseInt :: "string \<Rightarrow> nat \<Rightarrow> jsnum" where
  "parseInt string radix =
     (let S = dropWhile isWhiteSpace string;
          sign = signOf S;
          S1 = stripSign S
      in if radix \<noteq> 0 \<and> (radix < 2 \<or> 36 < radix) then NaN
         else
           (let stripPrefix = (radix = 0 \<or> radix = 16);
                hex = (stripPrefix \<and> hasHexPrefix S1);
                R = (if hex then 16 else if radix = 0 then 10 else radix);
                S2 = (if hex then drop 2 S1 else S1);
                Z = takeWhile (isRadixDigit R) S2
            in if Z = [] then NaN else Num (sign * int (digitsValue R Z))))"

text \<open>infrastructure/config/environment.ts; \<open>process_env\<close> is \<^verbatim>\<open>process.env\<close>.\<close>

record config_t =
  port :: jsnum
  nodeEnv :: string
  host :: string

definition config :: "(string \<rightharpoonup> string) \<Rightarrow> config_t" where
  "config process_env =
     \<lparr>port = parseInt (opt_str_or (process_env ''PORT'') ''3000'') 10,
      nodeEnv = opt_str_or (process_env ''NODE_ENV'') ''production'',
      host = opt_str_or (process_env ''HOST'') ''0.0.0.0''\<rparr>"

text \<open>
  Whether a text begins with a decimal digit; used to say when \<open>parseInt\<close> with radix 10
  finds no number.
\<close>

definition startsWithDigit :: "string \<Rightarrow> bool" where
  "startsWithDigit S = (case S of [] \<Rightarrow> False | c # _ \<Rightarrow> c \<in> set ''0123456789'')"

section \<open>What the built server looks like\<close>

lemma routes_buildServer:
  "routes (buildServer opts) =
     (if exposeHead (Fastify opts)
      then [\<lparr>route_method = GET, route_url = ''/status'', handler = HealthController\<rparr>,
            \<lparr>route_method = HEAD, route_url = ''/status'', handler = HealthController\<rparr>]
      else [\<lparr>route_method = GET, route_url = ''/status'', handler = HealthController\<rparr>])
     @ [\<lparr>route_method = POST, route_url = ''/status'', handler = MethodNotAllowedHandler\<rparr>,
        \<lparr>route_method = PUT, route_url = ''/status'', handler = MethodNotAllowedHandler\<rparr>,
        \<lparr>route_method = DELETE, route_url = ''/status'', handler = MethodNotAllowedHandler\<rparr>,
        \<lparr>route_method = PATCH, route_url = ''/status'', handler = MethodNotAllowedHandler\<rparr>]"
  by (simp add: buildServer_def healthRoutes_def errorHandler_def setErrorHandler_def
      fastify_get_def add_route_def Fastify_def Let_def)


lemma serve_append: "serve fastify (xs @ ys) = serve fastify xs @ serve fastify ys"
  by (induction xs) simp_all

lemma inject_get_status:
  "req_method request = GET \<Longrightarrow> path request = ''/status'' \<Longrightarrow>
   inject (buildServer opts) request =
     Replied HealthController
       \<lparr>reply_statusCode = Num 200, reply_payload = Some (HealthPayload \<lparr>status = ''ok''\<rparr>)\<rparr>"
  by (simp add: inject_def routes_buildServer healthController_def reply_send_def new_reply_def)

section \<open>GET /status\<close>

text \<open>
  Claim C1. For every GET request to /status the handler returns the constant object
  \<^verbatim>\<open>{"status":"ok"}\<close>, whatever the request and the reply object are; the server built by
  \<open>buildServer\<close> answers it through \<open>healthController\<close> with status 200 and that
  object, and it does so after every sequence of earlier requests.
\<close>

theorem status_get_returns_ok:
  assumes "req_method request = GET" and "path request = ''/status''"
  shows "healthController request reply = \<lparr>status = ''ok''\<rparr> \<and>
         inject (buildServer opts) request =
           Replied HealthController
             \<lparr>reply_statusCode = Num 200,
              reply_payload = Some (HealthPayload \<lparr>status = ''ok''\<rparr>)\<rparr> \<and>
         last (serve (buildServer opts) (prior @ [request])) =
           Replied HealthController
             \<lparr>reply_statusCode = Num 200,
              reply_payload = Some (HealthPayload \<lparr>status = ''ok''\<rparr>)\<rparr>"
  using assms by (simp add: healthController_def inject_get_status serve_append)

theorem status_get_returns_ok_witness:
  "last (serve (buildServer \<lparr>exposeHeadRoutes = None\<rparr>)
      ([\<lparr>req_method = POST, path = ''/status''\<rparr>, \<lparr>req_method = GET, path = ''/missing''\<rparr>]
        @ [\<lparr>req_method = GET, path = ''/status''\<rparr>])) =
     Replied HealthController
       \<lparr>reply_statusCode = Num 200, reply_payload = Some (HealthPayload \<lparr>status = ''ok''\<rparr>)\<rparr>"
  using status_get_returns_ok [of "\<lparr>req_method = GET, path = ''/status''\<rparr>" new_reply
      "\<lparr>exposeHeadRoutes = None\<rparr>"
      "[\<lparr>req_method = POST, path = ''/status''\<rparr>, \<lparr>req_method = GET, path = ''/missing''\<rparr>]"]
  by simp

section \<open>Other methods on /status\<close>

text \<open>
  The four methods that \<open>healthRoutes\<close> registers are answered by
  \<open>methodNotAllowedHandler\<close> with status 405.
\<close>

lemma inject_method_not_allowed:
  "m \<in> {POST, PUT, DELETE, PATCH} \<Longrightarrow> req_method request = m \<Longrightarrow> path request = ''/status'' \<Longrightarrow>
   inject (buildServer opts) request =
     Replied MethodNotAllowedHandler
       \<lparr>reply_statusCode = Num 405,
        reply_payload = Some (ObjectPayload
          [(''statusCode'', JNumber (Num 405)),
           (''error'', JString ''Method Not Allowed''),
           (''message'', JString ''GET method required for /status endpoint'')])\<rparr>"
  by (auto simp add: inject_def routes_buildServer methodNotAllowedHandler_def reply_send_def
      reply_status_def new_reply_def)

text \<open>
  With the default options the HEAD route that comes with the GET route runs
  \<open>healthController\<close>.
\<close>

lemma head_status_runs_healthController:
  "inject (buildServer \<lparr>exposeHeadRoutes = None\<rparr>) \<lparr>req_method = HEAD, path = ''/status''\<rparr> =
     Replied HealthController
       \<lparr>reply_statusCode = Num 200, reply_payload = Some (HealthPayload \<lparr>status = ''ok''\<rparr>)\<rparr>"
  by (simp add: inject_def routes_buildServer Fastify_def healthController_def reply_send_def
      new_reply_def)

text \<open>
  Claim C2 says that every method other than GET on /status is answered with 405 and
  without running the health handler. An OPTIONS request to /status matches no route of the
  built server, under every setting of the options: \<open>methodNotAllowedHandler\<close> does not
  run and no 405 is sent by this program.
\<close>

theorem options_status_has_no_route:
  "inject (buildServer opts) \<lparr>req_method = OPTIONS, path = ''/status''\<rparr> = NoRoute"
  by (simp add: inject_def routes_buildServer)

section \<open>The error handler\<close>








section \<open>The configuration object\<close>

lemma decimal_digit_iff: "isRadixDigit 10 c = (c \<in> set ''0123456789'')"
proof
  assume "isRadixDigit 10 c"
  then have "48 \<le> (of_char c :: nat) \<and> (of_char c :: nat) \<le> 57"
    by (auto simp add: isRadixDigit_def digitValue_def Let_def split: if_splits)
  then have "(of_char c :: nat) \<in> {48, 49, 50, 51, 52, 53, 54, 55, 56, 57}"
    by (simp only: insert_iff empty_iff) arith
  then have "(of_char c :: nat) \<in> of_char ` set ''0123456789''"
    by simp
  then show "c \<in> set ''0123456789''"
    by (auto simp del: set_simps)
next
  assume "c \<in> set ''0123456789''"
  then show "isRadixDigit 10 c"
    by (auto simp add: isRadixDigit_def digitValue_def)
qed

lemma takeWhile_Nil_iff: "(takeWhile P xs = []) = (case xs of [] \<Rightarrow> True | x # _ \<Rightarrow> \<not> P x)"
  by (cases xs) simp_all

lemma parseInt_10_NaN_iff:
  "(parseInt p 10 = NaN) = (\<not> startsWithDigit (stripSign (dropWhile isWhiteSpace p)))"
  by (simp add: parseInt_def Let_def takeWhile_Nil_iff startsWithDigit_def decimal_digit_iff
      split: list.splits)

lemma parseInt_8080: "parseInt ''8080'' 10 = Num 8080"
  by (simp add: parseInt_def isWhiteSpace_def signOf_def stripSign_def isRadixDigit_def
      digitValue_def digitsValue_def)

lemma parseInt_signed: "parseInt '' -5x'' 10 = Num (- 5)"
  by (simp add: parseInt_def isWhiteSpace_def signOf_def stripSign_def isRadixDigit_def
      digitValue_def digitsValue_def)

text \<open>
  Claim C10 as stated says that \<^verbatim>\<open>config.port\<close> is \<^verbatim>\<open>parseInt(PORT, 10)\<close> whenever PORT
  is set, and NaN for a PORT value with no leading digits. With PORT set to the empty
  string the source's \<^verbatim>\<open>process.env.PORT || '3000'\<close> takes the default: the port is 3000,
  while \<^verbatim>\<open>parseInt('', 10)\<close> is NaN.
\<close>

theorem config_empty_PORT_counterexample:
  "[''PORT'' \<mapsto> []] ''PORT'' = Some [] \<and>
   port (config [''PORT'' \<mapsto> []]) = Num 3000 \<and> parseInt [] 10 = NaN"
  by (simp add: config_def str_or_def parseInt_def isWhiteSpace_def signOf_def stripSign_def
      isRadixDigit_def digitValue_def digitsValue_def)

text \<open>
  Claim C10, amended. \<^verbatim>\<open>config.port\<close> is 3000 when PORT is unset or empty and
  \<^verbatim>\<open>parseInt(PORT, 10)\<close> when PORT is a non-empty string; nothing is validated, so for a
  non-empty PORT the port is NaN exactly when the text, after leading white space and one
  optional sign, does not start with a decimal digit. \<^verbatim>\<open>config.nodeEnv\<close> and
  \<^verbatim>\<open>config.host\<close> are the values of NODE_ENV and HOST, and \<^verbatim>\<open>'production'\<close> and
  \<^verbatim>\<open>'0.0.0.0'\<close> when those are unset or empty.
\<close>

theorem config_from_env:
  "(process_env ''PORT'' = None \<or> process_env ''PORT'' = Some [] \<longrightarrow>
      port (config process_env) = Num 3000) \<and>
   (process_env ''PORT'' = Some p \<and> p \<noteq> [] \<longrightarrow>
      port (config process_env) = parseInt p 10 \<and>
      (port (config process_env) = NaN) =
        (\<not> startsWithDigit (stripSign (dropWhile isWhiteSpace p)))) \<and>
   nodeEnv (config process_env) =
     (case process_env ''NODE_ENV'' of None \<Rightarrow> ''production''
      | Some s \<Rightarrow> if s = [] then ''production'' else s) \<and>
   host (config process_env) =
     (case process_env ''HOST'' of None \<Rightarrow> ''0.0.0.0''
      | Some s \<Rightarrow> if s = [] then ''0.0.0.0'' else s)"
proof -
  have default_3000: "parseInt ''3000'' 10 = Num 3000"
    by (simp add: parseInt_def isWhiteSpace_def signOf_def stripSign_def isRadixDigit_def
        digitValue_def digitsValue_def)
  have unset: "process_env ''PORT'' = None \<or> process_env ''PORT'' = Some [] \<longrightarrow>
      port (config process_env) = Num 3000"
    using default_3000 by (auto simp add: config_def str_or_def)
  have given: "process_env ''PORT'' = Some p \<and> p \<noteq> [] \<longrightarrow>
      port (config process_env) = parseInt p 10"
    by (simp add: config_def str_or_def)
  have nan: "process_env ''PORT'' = Some p \<and> p \<noteq> [] \<longrightarrow>
      (port (config process_env) = NaN) =
        (\<not> startsWithDigit (stripSign (dropWhile isWhiteSpace p)))"
    using given parseInt_10_NaN_iff [of p] by simp
  have env: "nodeEnv (config process_env) =
     (case process_env ''NODE_ENV'' of None \<Rightarrow> ''production''
      | Some s \<Rightarrow> if s = [] then ''production'' else s)"
    by (simp add: config_def str_or_def split: option.splits)
  have hst: "host (config process_env) =
     (case process_env ''HOST'' of None \<Rightarrow> ''0.0.0.0''
      | Some s \<Rightarrow> if s = [] then ''0.0.0.0'' else s)"
    by (simp add: config_def str_or_def split: option.splits)
  from unset given nan env hst show ?thesis by blast
qed

theorem config_from_env_witness:
  "port (config Map.empty) = Num 3000 \<and>
   port (config [''PORT'' \<mapsto> ''8080'']) = parseInt ''8080'' 10 \<and>
   port (config [''PORT'' \<mapsto> ''abc'']) = NaN"
  using config_from_env [of Map.empty] config_from_env [of "[''PORT'' \<mapsto> ''8080'']" "''8080''"]
    config_from_env [of "[''PORT'' \<mapsto> ''abc'']" "''abc''"]
  by (auto simp add: startsWithDigit_def stripSign_def isWhiteSpace_def)

end
